theory Spec2Isabelle
  imports Complex_Main
begin

section \<open>The AI request gateway of \<open>scripts/ai-utils.js\<close>\<close>

text \<open>
  The development embeds \<open>maskApiKey\<close>, \<open>makeRequest\<close>, the three provider classes,
  \<open>createAIProvider\<close> and \<open>callAI\<close>. Asynchronous code is modelled by the value its
  promise settles with, paired with the list of effects (requests written, sleeps, console
  lines) in the order in which they happen. What the network does is a parameter: a
  function from the index of an attempt to the first event that attempt observes.
\<close>

subsection \<open>JavaScript values\<close>

text \<open>
  Parsed JSON and object literals. An object is its list of own properties in insertion
  order; numbers are exact rationals (the source only builds \<open>0.7\<close>, \<open>2000\<close> and
  integers; doubles represent the exponential delays computed below exactly while
  \<open>retries\<close> stays under a thousand).
\<close>

datatype jsval =
    JUndefined
  | JNull
  | JBool bool
  | JNum rat
  | JStr string
  | JArr "jsval list"
  | JObj "(string \<times> jsval) list"

text \<open>A configuration entry or argument that may be missing: \<open>undefined\<close>, \<open>null\<close> or a value.\<close>

datatype 'a field = Absent | NullV | Given 'a

text \<open>
  A JavaScript number, which is an IEEE double. \<open>NaN\<close> is what \<open>parseInt\<close> returns on
  a non-numeric string. \<open>Finite x\<close> is a double whose value is exactly \<open>x\<close>.
  \<open>Inexact\<close> is a double that is not computed here: the exact result of the operation
  lies beyond \<open>2^53 = 9007199254740992\<close> in magnitude, where doubles round (or
  overflow), and nothing is said about its value.
\<close>

datatype number = NaN | Finite rat | Inexact

text \<open>Thrown values: \<open>new Error(message)\<close> and the engine's \<open>TypeError\<close>.\<close>

datatype js_error = Error string | TypeError string

fun message :: "js_error \<Rightarrow> string" where
  "message (Error m) = m"
| "message (TypeError m) = m"

text \<open>Truthiness, as \<open>!x\<close>, \<open>x || y\<close> and \<open>if (x)\<close> read it.\<close>

fun truthy :: "jsval \<Rightarrow> bool" where
  "truthy JUndefined = False"
| "truthy JNull = False"
| "truthy (JBool b) = b"
| "truthy (JNum n) = (n \<noteq> 0)"
| "truthy (JStr s) = (s \<noteq> [])"
| "truthy (JArr xs) = True"
| "truthy (JObj kvs) = True"

fun truthy_str :: "string field \<Rightarrow> bool" where
  "truthy_str Absent = False"
| "truthy_str NullV = False"
| "truthy_str (Given s) = (s \<noteq> [])"

fun to_jsval :: "string field \<Rightarrow> jsval" where
  "to_jsval Absent = JUndefined"
| "to_jsval NullV = JNull"
| "to_jsval (Given s) = JStr s"

text \<open>A value inside a template literal \<open>`${x}`\<close>.\<close>

fun render :: "string field \<Rightarrow> string" where
  "render Absent = ''undefined''"
| "render NullV = ''null''"
| "render (Given s) = s"

text \<open>\<open>a || b\<close> on strings that may be missing; the result is \<open>b\<close> when \<open>a\<close> is falsy.\<close>

fun or_str :: "string field \<Rightarrow> string \<Rightarrow> string" where
  "or_str (Given s) d = (if s = [] then d else s)"
| "or_str Absent d = d"
| "or_str NullV d = d"

subsection \<open>String helpers\<close>

text \<open>The decimal rendering of an integer inside a template literal.\<close>

fun show_nat :: "nat \<Rightarrow> string" where
  "show_nat n =
     (if n < 10 then [''0123456789'' ! n] else show_nat (n div 10) @ [''0123456789'' ! (n mod 10)])"

definition show_int :: "int \<Rightarrow> string" where
  "show_int i = (if i < 0 then CHR ''-'' # show_nat (nat (- i)) else show_nat (nat i))"

text \<open>\<open>String.prototype.toLowerCase\<close> on the ASCII letters.\<close>

definition lower_char :: "char \<Rightarrow> char" where
  "lower_char c = (let n = (of_char c :: nat) in if 65 \<le> n \<and> n \<le> 90 then char_of (n + 32) else c)"

definition toLowerCase :: "string \<Rightarrow> string" where
  "toLowerCase s = map lower_char s"

text \<open>\<open>s.replace(/\/$/, '')\<close>: one trailing slash is removed.\<close>

definition strip_trailing_slash :: "string \<Rightarrow> string" where
  "strip_trailing_slash s = (if s \<noteq> [] \<and> last s = CHR ''/'' then butlast s else s)"

text \<open>\<open>s.substring(a, b)\<close> and \<open>s.substring(a)\<close> for indices that are not negative.\<close>

definition substring :: "string \<Rightarrow> nat \<Rightarrow> nat \<Rightarrow> string" where
  "substring s a b = drop (min a b) (take (max a b) s)"

definition substring_from :: "string \<Rightarrow> nat \<Rightarrow> string" where
  "substring_from s a = drop a s"

text \<open>
  \<open>parseInt(s, 10)\<close>: leading white space is skipped, one sign is read, then the longest
  run of decimal digits; without a digit the result is \<open>NaN\<close>. Every integer up to
  \<open>2^53\<close> in magnitude is a double; a longer digit run is rounded.
\<close>

definition is_space :: "char \<Rightarrow> bool" where
  "is_space c = ((of_char c :: nat) \<in> {9, 10, 11, 12, 13, 32, 160})"

definition is_digit :: "char \<Rightarrow> bool" where
  "is_digit c = (48 \<le> (of_char c :: nat) \<and> (of_char c :: nat) \<le> 57)"

definition digits_value :: "string \<Rightarrow> nat" where
  "digits_value ds = foldl (\<lambda>a c. 10 * a + (of_char c - 48)) 0 ds"

definition parseInt :: "string \<Rightarrow> number" where
  "parseInt s =
     (let t = dropWhile is_space s;
          neg = (t \<noteq> [] \<and> hd t = CHR ''-'');
          u = (if t \<noteq> [] \<and> (hd t = CHR ''-'' \<or> hd t = CHR ''+'') then tl t else t);
          ds = takeWhile is_digit u
      in if ds = [] then NaN
         else if digits_value ds \<le> 9007199254740992
         then Finite (of_int (if neg then - int (digits_value ds) else int (digits_value ds)))
         else Inexact)"

text \<open>
  \<open>x * y\<close> for a number \<open>x\<close> and an integer \<open>y\<close>. The product of two integers is
  exact in doubles when it is at most \<open>2^53\<close> in magnitude.
\<close>

fun times :: "number \<Rightarrow> int \<Rightarrow> number" where
  "times NaN y = NaN"
| "times Inexact y = Inexact"
| "times (Finite x) y =
     (if of_int \<lfloor>x\<rfloor> = x \<and> \<bar>x * of_int y\<bar> \<le> 9007199254740992 then Finite (x * of_int y)
      else Inexact)"


subsection \<open>\<open>maskApiKey\<close>\<close>

fun maskApiKey :: "string field \<Rightarrow> string" where
  "maskApiKey Absent = ''***''"
| "maskApiKey NullV = ''***''"
| "maskApiKey (Given apiKey) =
     (if apiKey = [] \<or> length apiKey \<le> 8 then ''***''
      else substring apiKey 0 4 @ ''***'' @ substring_from apiKey (length apiKey - 4))"

subsection \<open>\<open>makeRequest\<close>\<close>

text \<open>
  The first event one attempt observes. \<open>ResponseEnd\<close> is the response's \<open>end\<close> event
  with \<open>res.statusCode\<close>, \<open>res.headers['retry-after']\<close>, \<open>res.statusMessage\<close> and the
  collected \<open>data\<close>; \<open>RequestError\<close> is the request's \<open>error\<close> event with
  \<open>error.message\<close>; \<open>TimerFired\<close> is the attempt's own timer running out first, and
  its argument tells whether the request, once destroyed, still emits \<open>error\<close> (and with
  which message), which runs the registered handler. The two other handlers clear the
  timer, so nothing follows them.
\<close>

datatype outcome =
    ResponseEnd int "string option" string string
  | RequestError string
  | TimerFired "string option"

datatype protocol = Https | Http

datatype retry_note = RateLimited | ServerError int | RequestFailed string

text \<open>
  Effects. \<open>Request\<close> is one \<open>protocol.request(url, options, ...)\<close> with the body handed
  to \<open>req.write\<close> (\<open>None\<close> when the body is falsy and nothing is written);
  \<open>Retrying\<close> is the console line that announces a retry, kept with its delay as a
  number.
\<close>

datatype effect =
    Request protocol string jsval "jsval option"
  | Destroy
  | Retrying retry_note number
  | Sleep number
  | ConsoleLog string
  | ConsoleError string

datatype settlement = Resolved jsval | Rejected js_error

definition then_retry :: "effect list \<Rightarrow> settlement \<times> effect list \<Rightarrow> settlement \<times> effect list" where
  "then_retry pre r = (fst r, pre @ snd r)"

text \<open>The number of HTTP requests among the effects.\<close>

fun is_request :: "effect \<Rightarrow> bool" where
  "is_request (Request p u opts b) = True"
| "is_request e = False"

definition attempts :: "effect list \<Rightarrow> nat" where
  "attempts es = length (filter is_request es)"


definition issue :: "string \<Rightarrow> jsval \<Rightarrow> jsval \<Rightarrow> effect" where
  "issue url options body =
     Request (if take 5 url = ''https'' then Https else Http) url options
       (if truthy body then Some body else None)"

definition exponential :: "int \<Rightarrow> number" where
  "exponential retries = Finite (1000 * 2 powi (2 - retries))"

definition retry_after :: "string option \<Rightarrow> number" where
  "retry_after h = parseInt (case h of None \<Rightarrow> ''5'' | Some v \<Rightarrow> if v = [] then ''5'' else v)"

text \<open>
  A promise keeps its first settlement. When the timer fires, \<open>reject\<close> runs at once, so
  the attempts that the \<open>error\<close> handler may still start afterwards add their effects and
  cannot change the result.
\<close>

function makeRequest ::
  "(string \<Rightarrow> jsval option) \<Rightarrow> (nat \<Rightarrow> outcome) \<Rightarrow> nat \<Rightarrow> string \<Rightarrow> jsval \<Rightarrow> jsval \<Rightarrow> int \<Rightarrow> int
     \<Rightarrow> settlement \<times> effect list" where
  "makeRequest JSON_parse env i url options body retries timeout =
     (case env i of
        ResponseEnd statusCode retryAfterHeader statusMessage data \<Rightarrow>
          if 200 \<le> statusCode \<and> statusCode < 300 then
            (Resolved (case JSON_parse data of Some v \<Rightarrow> v | None \<Rightarrow> JStr data),
             [issue url options body])
          else if statusCode = 429 \<and> retries > 0 then
            then_retry
              [issue url options body,
               Retrying RateLimited (times (times (retry_after retryAfterHeader) 1000) (3 - retries)),
               Sleep (times (times (retry_after retryAfterHeader) 1000) (3 - retries))]
              (makeRequest JSON_parse env (Suc i) url options body (retries - 1) timeout)
          else if statusCode \<ge> 500 \<and> retries > 0 then
            then_retry
              [issue url options body,
               Retrying (ServerError statusCode) (exponential retries),
               Sleep (exponential retries)]
              (makeRequest JSON_parse env (Suc i) url options body (retries - 1) timeout)
          else
            (Rejected (Error (''API request failed: '' @ show_int statusCode @ '' '' @ statusMessage
                              @ [CHR 0x0A] @ data)),
             [issue url options body])
      | RequestError m \<Rightarrow>
          if retries > 0 then
            then_retry
              [issue url options body,
               Retrying (RequestFailed m) (exponential retries),
               Sleep (exponential retries)]
              (makeRequest JSON_parse env (Suc i) url options body (retries - 1) timeout)
          else (Rejected (Error m), [issue url options body])
      | TimerFired afterwards \<Rightarrow>
          (Rejected (Error (''Request timeout after '' @ show_int timeout @ ''ms'')),
           [issue url options body, Destroy] @
           (case afterwards of
              None \<Rightarrow> []
            | Some m \<Rightarrow>
                if retries > 0 then
                  [Retrying (RequestFailed m) (exponential retries), Sleep (exponential retries)] @
                  snd (makeRequest JSON_parse env (Suc i) url options body (retries - 1) timeout)
                else [])))"
  by pat_completeness auto
termination
  by (relation "measure (\<lambda>(JSON_parse, env, i, url, options, body, retries, timeout). nat retries)") auto

declare makeRequest.simps [simp del]

declare show_nat.simps [simp del]

subsection \<open>Reading a response\<close>

text \<open>
  Property access throws a \<open>TypeError\<close> on \<open>undefined\<close> and \<open>null\<close>; the message is
  the engine's (V8's wording here), and nothing below depends on it. The names read by the
  source (\<open>choices\<close>, \<open>message\<close>, \<open>content\<close>, \<open>text\<close>) are own properties of objects
  only, so every other value answers \<open>undefined\<close>.
\<close>

definition cannot_read :: "string \<Rightarrow> string \<Rightarrow> string" where
  "cannot_read v k = ''Cannot read properties of '' @ v @ '' (reading '' @ [CHR 0x27] @ k @ [CHR 0x27] @ '')''"

fun lookup :: "(string \<times> jsval) list \<Rightarrow> string \<Rightarrow> jsval" where
  "lookup kvs k = (case map_of kvs k of None \<Rightarrow> JUndefined | Some v \<Rightarrow> v)"

text \<open>\<open>v.k\<close>\<close>

fun get_prop :: "jsval \<Rightarrow> string \<Rightarrow> js_error + jsval" where
  "get_prop JUndefined k = Inl (TypeError (cannot_read ''undefined'' k))"
| "get_prop JNull k = Inl (TypeError (cannot_read ''null'' k))"
| "get_prop (JObj kvs) k = Inr (lookup kvs k)"
| "get_prop v k = Inr JUndefined"

text \<open>\<open>v[0]\<close>\<close>

fun get_index0 :: "jsval \<Rightarrow> js_error + jsval" where
  "get_index0 JUndefined = Inl (TypeError (cannot_read ''undefined'' ''0''))"
| "get_index0 JNull = Inl (TypeError (cannot_read ''null'' ''0''))"
| "get_index0 (JArr xs) = Inr (case xs of [] \<Rightarrow> JUndefined | x # _ \<Rightarrow> x)"
| "get_index0 (JStr s) = Inr (case s of [] \<Rightarrow> JUndefined | c # _ \<Rightarrow> JStr [c])"
| "get_index0 (JObj kvs) = Inr (lookup kvs ''0'')"
| "get_index0 v = Inr JUndefined"

text \<open>\<open>v?.k\<close>\<close>

fun opt_prop :: "jsval \<Rightarrow> string \<Rightarrow> jsval" where
  "opt_prop JUndefined k = JUndefined"
| "opt_prop JNull k = JUndefined"
| "opt_prop (JObj kvs) k = lookup kvs k"
| "opt_prop v k = JUndefined"

text \<open>\<open>a || b\<close>\<close>

definition or_else :: "jsval \<Rightarrow> jsval \<Rightarrow> jsval" where
  "or_else a b = (if truthy a then a else b)"

text \<open>\<open>response.choices[0]?.message?.content || ''\<close>\<close>

definition OpenAI_text :: "jsval \<Rightarrow> js_error + jsval" where
  "OpenAI_text response =
     (case get_prop response ''choices'' of
        Inl e \<Rightarrow> Inl e
      | Inr choices \<Rightarrow>
          (case get_index0 choices of
             Inl e \<Rightarrow> Inl e
           | Inr first \<Rightarrow> Inr (or_else (opt_prop (opt_prop first ''message'') ''content'') (JStr []))))"

text \<open>\<open>response.content[0]?.text || ''\<close>\<close>

definition Claude_text :: "jsval \<Rightarrow> js_error + jsval" where
  "Claude_text response =
     (case get_prop response ''content'' of
        Inl e \<Rightarrow> Inl e
      | Inr content \<Rightarrow>
          (case get_index0 content of
             Inl e \<Rightarrow> Inl e
           | Inr first \<Rightarrow> Inr (or_else (opt_prop first ''text'') (JStr []))))"

text \<open>\<open>response.choices[0]?.message?.content || response.content || ''\<close>\<close>

definition Local_text :: "jsval \<Rightarrow> js_error + jsval" where
  "Local_text response =
     (case get_prop response ''choices'' of
        Inl e \<Rightarrow> Inl e
      | Inr choices \<Rightarrow>
          (case get_index0 choices of
             Inl e \<Rightarrow> Inl e
           | Inr first \<Rightarrow>
               (if truthy (opt_prop (opt_prop first ''message'') ''content'')
                then Inr (opt_prop (opt_prop first ''message'') ''content'')
                else (case get_prop response ''content'' of
                        Inl e \<Rightarrow> Inl e
                      | Inr c \<Rightarrow> Inr (or_else c (JStr []))))))"

subsection \<open>The provider classes\<close>

datatype provider_kind = OpenAI | Claude | Local

record provider_obj =
  kind :: provider_kind
  this_apiKey :: "string field"
  this_baseUrl :: string
  this_model :: string
  this_timeout :: int
  this_maxRetries :: int

text \<open>
  The constructors. A parameter with a default value is an \<open>option\<close>: \<open>None\<close> is the
  argument \<open>undefined\<close>, which alone selects the default.
\<close>

definition new_OpenAIProvider ::
  "string field \<Rightarrow> string option \<Rightarrow> string option \<Rightarrow> int option \<Rightarrow> int option \<Rightarrow> provider_obj" where
  "new_OpenAIProvider apiKey baseUrl model timeout maxRetries =
     \<lparr>kind = OpenAI,
      this_apiKey = apiKey,
      this_baseUrl = strip_trailing_slash (case baseUrl of None \<Rightarrow> ''https://api.openai.com/v1'' | Some u \<Rightarrow> u),
      this_model = (case model of None \<Rightarrow> ''gpt-3.5-turbo'' | Some m \<Rightarrow> m),
      this_timeout = (case timeout of None \<Rightarrow> 30000 | Some t \<Rightarrow> t),
      this_maxRetries = (case maxRetries of None \<Rightarrow> 2 | Some r \<Rightarrow> r)\<rparr>"

definition new_ClaudeProvider ::
  "string field \<Rightarrow> string option \<Rightarrow> string option \<Rightarrow> int option \<Rightarrow> int option \<Rightarrow> provider_obj" where
  "new_ClaudeProvider apiKey baseUrl model timeout maxRetries =
     \<lparr>kind = Claude,
      this_apiKey = apiKey,
      this_baseUrl = strip_trailing_slash (case baseUrl of None \<Rightarrow> ''https://api.anthropic.com'' | Some u \<Rightarrow> u),
      this_model = (case model of None \<Rightarrow> ''claude-3-sonnet-20240229'' | Some m \<Rightarrow> m),
      this_timeout = (case timeout of None \<Rightarrow> 30000 | Some t \<Rightarrow> t),
      this_maxRetries = (case maxRetries of None \<Rightarrow> 2 | Some r \<Rightarrow> r)\<rparr>"

definition new_LocalProvider ::
  "string field \<Rightarrow> string \<Rightarrow> string option \<Rightarrow> int option \<Rightarrow> int option \<Rightarrow> provider_obj" where
  "new_LocalProvider apiKey baseUrl model timeout maxRetries =
     \<lparr>kind = Local,
      this_apiKey = Given (or_str apiKey []),
      this_baseUrl = strip_trailing_slash baseUrl,
      this_model = (case model of None \<Rightarrow> ''llama2'' | Some m \<Rightarrow> m),
      this_timeout = (case timeout of None \<Rightarrow> 60000 | Some t \<Rightarrow> t),
      this_maxRetries = (case maxRetries of None \<Rightarrow> 2 | Some r \<Rightarrow> r)\<rparr>"

text \<open>The \<open>messages\<close> array of the OpenAI-style providers.\<close>

definition chat_messages :: "string \<Rightarrow> string field \<Rightarrow> jsval" where
  "chat_messages prompt systemPrompt =
     JArr ((if truthy_str systemPrompt
            then [JObj [(''role'', JStr ''system''), (''content'', to_jsval systemPrompt)]] else [])
           @ [JObj [(''role'', JStr ''user''), (''content'', JStr prompt)]])"

definition chat_body :: "provider_obj \<Rightarrow> string \<Rightarrow> string field \<Rightarrow> jsval" where
  "chat_body this prompt systemPrompt =
     JObj [(''model'', JStr (this_model this)),
           (''messages'', chat_messages prompt systemPrompt),
           (''temperature'', JNum (7 / 10)),
           (''max_tokens'', JNum 2000)]"

text \<open>What \<open>call\<close> does with the settled request: the text, or the error wrapped with the provider's name.\<close>

definition finish ::
  "string \<Rightarrow> (jsval \<Rightarrow> js_error + jsval) \<Rightarrow> settlement \<times> effect list \<Rightarrow> (js_error + jsval) \<times> effect list" where
  "finish name text r =
     (case fst r of
        Resolved response \<Rightarrow>
          (case text response of
             Inl e \<Rightarrow> (Inl (Error (name @ '' API error: '' @ message e)), snd r)
           | Inr v \<Rightarrow> (Inr v, snd r))
      | Rejected e \<Rightarrow> (Inl (Error (name @ '' API error: '' @ message e)), snd r))"

definition OpenAIProvider_call ::
  "(string \<Rightarrow> jsval option) \<Rightarrow> (nat \<Rightarrow> outcome) \<Rightarrow> provider_obj \<Rightarrow> string \<Rightarrow> string field
     \<Rightarrow> (js_error + jsval) \<times> effect list" where
  "OpenAIProvider_call JSON_parse env this prompt systemPrompt =
     finish ''OpenAI'' OpenAI_text
       (makeRequest JSON_parse env 0
          (this_baseUrl this @ ''/chat/completions'')
          (JObj [(''method'', JStr ''POST''),
                 (''headers'', JObj [(''Content-Type'', JStr ''application/json''),
                                     (''Authorization'', JStr (''Bearer '' @ render (this_apiKey this)))])])
          (chat_body this prompt systemPrompt)
          (this_maxRetries this) (this_timeout this))"

definition Claude_body :: "provider_obj \<Rightarrow> string \<Rightarrow> string field \<Rightarrow> jsval" where
  "Claude_body this prompt systemPrompt =
     JObj ([(''model'', JStr (this_model this)),
            (''max_tokens'', JNum 2000),
            (''messages'', JArr [JObj [(''role'', JStr ''user''), (''content'', JStr prompt)]])]
           @ (if truthy_str systemPrompt then [(''system'', to_jsval systemPrompt)] else []))"

definition ClaudeProvider_call ::
  "(string \<Rightarrow> jsval option) \<Rightarrow> (nat \<Rightarrow> outcome) \<Rightarrow> provider_obj \<Rightarrow> string \<Rightarrow> string field
     \<Rightarrow> (js_error + jsval) \<times> effect list" where
  "ClaudeProvider_call JSON_parse env this prompt systemPrompt =
     finish ''Claude'' Claude_text
       (makeRequest JSON_parse env 0
          (this_baseUrl this @ ''/v1/messages'')
          (JObj [(''method'', JStr ''POST''),
                 (''headers'', JObj [(''Content-Type'', JStr ''application/json''),
                                     (''x-api-key'', to_jsval (this_apiKey this)),
                                     (''anthropic-version'', JStr ''2023-06-01'')])])
          (Claude_body this prompt systemPrompt)
          (this_maxRetries this) (this_timeout this))"

definition LocalProvider_call ::
  "(string \<Rightarrow> jsval option) \<Rightarrow> (nat \<Rightarrow> outcome) \<Rightarrow> provider_obj \<Rightarrow> string \<Rightarrow> string field
     \<Rightarrow> (js_error + jsval) \<times> effect list" where
  "LocalProvider_call JSON_parse env this prompt systemPrompt =
     finish ''Local AI'' Local_text
       (makeRequest JSON_parse env 0
          (this_baseUrl this @ ''/chat/completions'')
          (JObj [(''method'', JStr ''POST''),
                 (''headers'', JObj ([(''Content-Type'', JStr ''application/json'')]
                                     @ (if truthy_str (this_apiKey this)
                                        then [(''Authorization'', JStr (''Bearer '' @ render (this_apiKey this)))]
                                        else [])))])
          (chat_body this prompt systemPrompt)
          (this_maxRetries this) (this_timeout this))"

definition call ::
  "(string \<Rightarrow> jsval option) \<Rightarrow> (nat \<Rightarrow> outcome) \<Rightarrow> provider_obj \<Rightarrow> string \<Rightarrow> string field
     \<Rightarrow> (js_error + jsval) \<times> effect list" where
  "call JSON_parse env this prompt systemPrompt =
     (case kind this of
        OpenAI \<Rightarrow> OpenAIProvider_call JSON_parse env this prompt systemPrompt
      | Claude \<Rightarrow> ClaudeProvider_call JSON_parse env this prompt systemPrompt
      | Local \<Rightarrow> LocalProvider_call JSON_parse env this prompt systemPrompt)"

subsection \<open>\<open>createAIProvider\<close> and \<open>callAI\<close>\<close>

text \<open>
  The configuration object. The numeric entries are integers when present; the string
  entries may also be \<open>null\<close>.
\<close>

record config =
  provider :: "string field"
  apiKey :: "string field"
  baseUrl :: "string field"
  model :: "string field"
  timeout :: "int option"
  maxRetries :: "int option"

text \<open>
  A destructuring default replaces \<open>undefined\<close> only. \<open>x || d\<close> on a number replaces
  \<open>0\<close> as well.
\<close>

definition createAIProvider :: "config \<Rightarrow> (js_error + provider_obj) \<times> effect list" where
  "createAIProvider cfg =
     (let provider' = (case provider cfg of Absent \<Rightarrow> Given ''openai'' | p \<Rightarrow> p);
          timeout' = (case timeout cfg of None \<Rightarrow> 30000 | Some t \<Rightarrow> t);
          maxRetries' = (case maxRetries cfg of None \<Rightarrow> 2 | Some r \<Rightarrow> r)
      in if \<not> truthy_str (apiKey cfg) \<and> provider' \<noteq> Given ''local'' then
           (Inl (Error (''API key is required for provider: '' @ render provider')), [])
         else
           (case provider' of
              Given p \<Rightarrow>
                (if toLowerCase p = ''openai'' then
                   Inr (new_OpenAIProvider (apiKey cfg)
                          (Some (or_str (baseUrl cfg) ''https://api.openai.com/v1''))
                          (Some (or_str (model cfg) ''gpt-3.5-turbo''))
                          (Some timeout') (Some maxRetries'))
                 else if toLowerCase p = ''claude'' then
                   Inr (new_ClaudeProvider (apiKey cfg)
                          (Some (or_str (baseUrl cfg) ''https://api.anthropic.com''))
                          (Some (or_str (model cfg) ''claude-3-sonnet-20240229''))
                          (Some timeout') (Some maxRetries'))
                 else if toLowerCase p = ''local'' then
                   (if \<not> truthy_str (baseUrl cfg) then
                      Inl (Error ''baseUrl is required for local provider'')
                    else
                      Inr (new_LocalProvider (apiKey cfg) (render (baseUrl cfg))
                             (Some (or_str (model cfg) ''llama2''))
                             (Some (if timeout' = 0 then 60000 else timeout'))
                             (Some maxRetries')))
                 else
                   Inl (Error (''Unsupported AI provider: '' @ p @ ''. Supported: openai, claude, local'')))
            | _ \<Rightarrow> Inl (TypeError (cannot_read (render provider') ''toLowerCase'')),
            [ConsoleLog (''Initializing AI provider: '' @ render provider' @ '' (model: ''
                         @ or_str (model cfg) ''default'' @ '')'')]))"

definition callAI ::
  "(string \<Rightarrow> jsval option) \<Rightarrow> (nat \<Rightarrow> outcome) \<Rightarrow> config \<Rightarrow> string \<Rightarrow> string field
     \<Rightarrow> (js_error + jsval) \<times> effect list" where
  "callAI JSON_parse env cfg prompt systemPrompt =
     (case createAIProvider cfg of
        (Inl e, es) \<Rightarrow> (Inl e, es @ [ConsoleError (''AI API call failed: '' @ message e)])
      | (Inr aiProvider, es) \<Rightarrow>
          (case call JSON_parse env aiProvider prompt systemPrompt of
             (Inl e, es') \<Rightarrow>
               (Inl e,
                es @ [ConsoleLog (''Calling AI API (provider: '' @ render (provider cfg) @ '', masked key: ''
                                  @ maskApiKey (apiKey cfg) @ '')...'')]
                   @ es' @ [ConsoleError (''AI API call failed: '' @ message e)])
           | (Inr response, es') \<Rightarrow>
               (Inr response,
                es @ [ConsoleLog (''Calling AI API (provider: '' @ render (provider cfg) @ '', masked key: ''
                                  @ maskApiKey (apiKey cfg) @ '')...'')]
                   @ es' @ [ConsoleLog ''AI API call successful''])))"

section \<open>Properties\<close>

subsection \<open>Unfolding \<open>makeRequest\<close> by the event of the attempt\<close>

lemma makeRequest_ResponseEnd:
  "env i = ResponseEnd s h m d \<Longrightarrow>
   makeRequest JSON_parse env i url options body retries ms =
     (if 200 \<le> s \<and> s < 300 then
        (Resolved (case JSON_parse d of Some v \<Rightarrow> v | None \<Rightarrow> JStr d), [issue url options body])
      else if s = 429 \<and> retries > 0 then
        then_retry
          [issue url options body,
           Retrying RateLimited (times (times (retry_after h) 1000) (3 - retries)),
           Sleep (times (times (retry_after h) 1000) (3 - retries))]
          (makeRequest JSON_parse env (Suc i) url options body (retries - 1) ms)
      else if s \<ge> 500 \<and> retries > 0 then
        then_retry
          [issue url options body, Retrying (ServerError s) (exponential retries), Sleep (exponential retries)]
          (makeRequest JSON_parse env (Suc i) url options body (retries - 1) ms)
      else
        (Rejected (Error (''API request failed: '' @ show_int s @ '' '' @ m @ [CHR 0x0A] @ d)),
         [issue url options body]))"
  by (subst makeRequest.simps) (simp only: outcome.case)

lemma makeRequest_RequestError:
  "env i = RequestError m \<Longrightarrow>
   makeRequest JSON_parse env i url options body retries ms =
     (if retries > 0 then
        then_retry
          [issue url options body, Retrying (RequestFailed m) (exponential retries), Sleep (exponential retries)]
          (makeRequest JSON_parse env (Suc i) url options body (retries - 1) ms)
      else (Rejected (Error m), [issue url options body]))"
  by (subst makeRequest.simps) (simp only: outcome.case)

lemma makeRequest_TimerFired:
  "env i = TimerFired a \<Longrightarrow>
   makeRequest JSON_parse env i url options body retries ms =
     (Rejected (Error (''Request timeout after '' @ show_int ms @ ''ms'')),
      [issue url options body, Destroy] @
      (case a of
         None \<Rightarrow> []
       | Some m \<Rightarrow>
           if retries > 0 then
             [Retrying (RequestFailed m) (exponential retries), Sleep (exponential retries)] @
             snd (makeRequest JSON_parse env (Suc i) url options body (retries - 1) ms)
           else []))"
  by (subst makeRequest.simps) (simp only: outcome.case)

subsection \<open>Closed computations\<close>

lemma show_int_500: "show_int 500 = ''500''"
  by (simp add: show_int_def show_nat.simps)

lemma show_int_404: "show_int 404 = ''404''"
  by (simp add: show_int_def show_nat.simps)

lemma show_int_30000: "show_int 30000 = ''30000''"
  by (simp add: show_int_def show_nat.simps)

lemma lower_local: "toLowerCase ''local'' = ''local''"
  by code_simp

lemma lower_openai: "toLowerCase ''openai'' = ''openai''"
  by code_simp

lemma lower_claude: "toLowerCase ''claude'' = ''claude''"
  by code_simp

lemma exponential_2: "exponential 2 = Finite 1000"
  by (simp add: exponential_def)

lemma exponential_1: "exponential 1 = Finite 2000"
  by (simp add: exponential_def)


lemma is_request_issue: "is_request (issue url options body)"
  by (simp add: issue_def)

subsection \<open>Key redaction\<close>

text \<open>
  Claim C2. A key of at most 8 characters is rendered as \<open>***\<close>. A longer key is
  rendered as its first four characters, \<open>***\<close> and its last four characters, and the
  rendering does not depend on any character between them: replacing one of those leaves
  the output unchanged.
\<close>

theorem maskApiKey_redaction:
  "(length k \<le> 8 \<longrightarrow> maskApiKey (Given k) = ''***'') \<and>
   (8 < length k \<longrightarrow>
      maskApiKey (Given k) = take 4 k @ ''***'' @ drop (length k - 4) k \<and>
      (\<forall>i c. 4 \<le> i \<and> i < length k - 4 \<longrightarrow> maskApiKey (Given (k[i := c])) = maskApiKey (Given k)))"
  by (auto simp: substring_def substring_from_def)

theorem maskApiKey_redaction_witness:
  "length ''12345678'' \<le> 8 \<and> maskApiKey (Given ''12345678'') = ''***'' \<and>
   8 < length ''sk-12345abcdef'' \<and> maskApiKey (Given ''sk-12345abcdef'') = ''sk-1***cdef'' \<and>
   (4::nat) \<le> 6 \<and> 6 < length ''sk-12345abcdef'' - 4 \<and>
   maskApiKey (Given (''sk-12345abcdef''[6 := CHR ''Z''])) = maskApiKey (Given ''sk-12345abcdef'')"
  using maskApiKey_redaction [of "''12345678''"] maskApiKey_redaction [of "''sk-12345abcdef''"]
  by (simp add: substring_def substring_from_def)

subsection \<open>Retries\<close>

text \<open>
  Claim C3. With two retries and a backend that answers 500 to every attempt, three
  requests are made, the second after a sleep of 1000 ms and the third after a sleep of
  2000 ms, and the promise is rejected with the message
  \<open>API request failed: 500\<close>, the status message and the body of the last response.
\<close>

theorem server_error_three_attempts:
  "makeRequest JSON_parse (\<lambda>j. ResponseEnd 500 (h j) (m j) (d j)) i url options body 2 ms =
     (Rejected (Error (''API request failed: 500 '' @ m (i + 2) @ [CHR 0x0A] @ d (i + 2))),
      [issue url options body, Retrying (ServerError 500) (Finite 1000), Sleep (Finite 1000),
       issue url options body, Retrying (ServerError 500) (Finite 2000), Sleep (Finite 2000),
       issue url options body]) \<and>
   attempts (snd (makeRequest JSON_parse (\<lambda>j. ResponseEnd 500 (h j) (m j) (d j)) i url options body 2 ms)) = 3"
  by (simp add: makeRequest_ResponseEnd then_retry_def exponential_2 exponential_1 show_int_500
      attempts_def is_request_issue)

text \<open>
  Claim C5. A response whose status is in 400..499 and is not 429 ends the call at once,
  whatever the number of retries left: one request, no sleep, and a rejection whose
  message holds the status code and the response body.
\<close>

theorem client_error_not_retried:
  "env i = ResponseEnd s h m d \<Longrightarrow> 400 \<le> s \<Longrightarrow> s < 500 \<Longrightarrow> s \<noteq> 429 \<Longrightarrow>
   makeRequest JSON_parse env i url options body retries ms =
     (Rejected (Error (''API request failed: '' @ show_int s @ '' '' @ m @ [CHR 0x0A] @ d)),
      [issue url options body]) \<and>
   attempts (snd (makeRequest JSON_parse env i url options body retries ms)) = 1"
  by (simp add: makeRequest_ResponseEnd attempts_def is_request_issue)

theorem client_error_not_retried_witness:
  "(\<lambda>j. ResponseEnd 404 None ''Not Found'' ''no such model'') (0::nat) =
     ResponseEnd 404 None ''Not Found'' ''no such model'' \<and>
   (400::int) \<le> 404 \<and> (404::int) < 500 \<and> (404::int) \<noteq> 429 \<and>
   makeRequest (\<lambda>t. None) (\<lambda>j. ResponseEnd 404 None ''Not Found'' ''no such model'') 0
       ''https://api.openai.com/v1/chat/completions'' JNull (JObj []) 7 30000 =
     (Rejected (Error (''API request failed: 404 Not Found'' @ [CHR 0x0A] @ ''no such model'')),
      [Request Https ''https://api.openai.com/v1/chat/completions'' JNull (Some (JObj []))]) \<and>
   attempts (snd (makeRequest (\<lambda>t. None) (\<lambda>j. ResponseEnd 404 None ''Not Found'' ''no such model'') 0
       ''https://api.openai.com/v1/chat/completions'' JNull (JObj []) 7 30000)) = 1"
  using client_error_not_retried
    [of "\<lambda>j. ResponseEnd 404 None ''Not Found'' ''no such model''" 0 404 None "''Not Found''"
        "''no such model''" "\<lambda>t. None" "''https://api.openai.com/v1/chat/completions''" JNull "JObj []" 7 30000]
  by (simp add: show_int_404 issue_def attempts_def)

lemma timer_fired_rejects:
  "env i = TimerFired a \<Longrightarrow>
   fst (makeRequest JSON_parse env i url options body retries ms) =
     Rejected (Error (''Request timeout after '' @ show_int ms @ ''ms''))"
  by (simp add: makeRequest_TimerFired)

text \<open>
  Claim C1. The claim says that an attempt that times out with retries left consumes one
  retry and that the call fails only once the retries are used up. The timer's callback
  rejects the promise at once instead: with two retries left and a backend that would
  answer 200 to the next attempt, the call fails with \<open>Request timeout after 30000ms\<close>.
  When the destroyed request emits \<open>error\<close>, its handler does start the next attempt
  after 1000 ms, and the result of that attempt is lost. The handler of a request error,
  on the same input, retries and resolves.
\<close>

theorem timeout_fails_with_retries_left:
  "fst (makeRequest JSON_parse (\<lambda>j. if j = 0 then TimerFired a else ResponseEnd 200 h m d) 0
          url options body 2 30000) = Rejected (Error ''Request timeout after 30000ms'') \<and>
   snd (makeRequest JSON_parse (\<lambda>j. if j = 0 then TimerFired None else ResponseEnd 200 h m d) 0
          url options body 2 30000) = [issue url options body, Destroy] \<and>
   snd (makeRequest JSON_parse (\<lambda>j. if j = 0 then TimerFired (Some e) else ResponseEnd 200 h m d) 0
          url options body 2 30000) =
     [issue url options body, Destroy, Retrying (RequestFailed e) (Finite 1000), Sleep (Finite 1000),
      issue url options body] \<and>
   makeRequest JSON_parse (\<lambda>j. if j = 0 then RequestError e else ResponseEnd 200 h m d) 0
          url options body 2 30000 =
     (Resolved (case JSON_parse d of Some v \<Rightarrow> v | None \<Rightarrow> JStr d),
      [issue url options body, Retrying (RequestFailed e) (Finite 1000), Sleep (Finite 1000),
       issue url options body])"
  by (simp add: makeRequest_TimerFired makeRequest_ResponseEnd makeRequest_RequestError then_retry_def
      exponential_2 show_int_30000)

subsection \<open>\<open>parseInt\<close> reads back a decimal rendering\<close>















subsection \<open>The factory and the facade\<close>

text \<open>
  Claim C6. With \<open>provider = "local"\<close> and a missing (or empty) \<open>baseUrl\<close>,
  \<open>createAIProvider\<close> throws \<open>baseUrl is required for local provider\<close>; \<open>callAI\<close>
  logs the failure and rethrows it, and no HTTP request is made.
\<close>

theorem local_without_baseUrl:
  "provider cfg = Given ''local'' \<Longrightarrow> \<not> truthy_str (baseUrl cfg) \<Longrightarrow>
   fst (createAIProvider cfg) = Inl (Error ''baseUrl is required for local provider'') \<and>
   callAI JSON_parse env cfg prompt sp =
     (Inl (Error ''baseUrl is required for local provider''),
      [ConsoleLog (''Initializing AI provider: local (model: '' @ or_str (model cfg) ''default'' @ '')''),
       ConsoleError ''AI API call failed: baseUrl is required for local provider'']) \<and>
   attempts (snd (callAI JSON_parse env cfg prompt sp)) = 0"
  by (simp add: callAI_def createAIProvider_def lower_local attempts_def)

theorem local_without_baseUrl_witness:
  "provider \<lparr>provider = Given ''local'', apiKey = Absent, baseUrl = Absent, model = Absent,
              timeout = None, maxRetries = None\<rparr> = Given ''local'' \<and>
   \<not> truthy_str (baseUrl \<lparr>provider = Given ''local'', apiKey = Absent, baseUrl = Absent, model = Absent,
              timeout = None, maxRetries = None\<rparr>) \<and>
   callAI (\<lambda>t. None) (\<lambda>j. ResponseEnd 200 None ''OK'' ''hello'')
      \<lparr>provider = Given ''local'', apiKey = Absent, baseUrl = Absent, model = Absent,
              timeout = None, maxRetries = None\<rparr> ''prompt'' Absent =
     (Inl (Error ''baseUrl is required for local provider''),
      [ConsoleLog ''Initializing AI provider: local (model: default)'',
       ConsoleError ''AI API call failed: baseUrl is required for local provider''])"
  using local_without_baseUrl
    [of "\<lparr>provider = Given ''local'', apiKey = Absent, baseUrl = Absent, model = Absent,
              timeout = None, maxRetries = None\<rparr>" "\<lambda>t. None" "\<lambda>j. ResponseEnd 200 None ''OK'' ''hello''"
        "''prompt''" Absent]
  by simp

lemma factory_defaults_openai_claude:
  "fst (createAIProvider \<lparr>provider = Given ''openai'', apiKey = Given (c # key), baseUrl = Absent,
                            model = Absent, timeout = None, maxRetries = None\<rparr>) =
     Inr \<lparr>kind = OpenAI, this_apiKey = Given (c # key), this_baseUrl = ''https://api.openai.com/v1'',
          this_model = ''gpt-3.5-turbo'', this_timeout = 30000, this_maxRetries = 2\<rparr> \<and>
   fst (createAIProvider \<lparr>provider = Absent, apiKey = Given (c # key), baseUrl = Absent,
                            model = Absent, timeout = None, maxRetries = None\<rparr>) =
     Inr \<lparr>kind = OpenAI, this_apiKey = Given (c # key), this_baseUrl = ''https://api.openai.com/v1'',
          this_model = ''gpt-3.5-turbo'', this_timeout = 30000, this_maxRetries = 2\<rparr> \<and>
   fst (createAIProvider \<lparr>provider = Given ''claude'', apiKey = Given (c # key), baseUrl = Absent,
                            model = Absent, timeout = None, maxRetries = None\<rparr>) =
     Inr \<lparr>kind = Claude, this_apiKey = Given (c # key), this_baseUrl = ''https://api.anthropic.com'',
          this_model = ''claude-3-sonnet-20240229'', this_timeout = 30000, this_maxRetries = 2\<rparr>"
  by (simp add: createAIProvider_def lower_openai lower_claude new_OpenAIProvider_def new_ClaudeProvider_def
      strip_trailing_slash_def)

lemma LocalProvider_constructor_default:
  "this_timeout (new_LocalProvider k u mo None r) = 60000"
  by (simp add: new_LocalProvider_def)

text \<open>
  Claim C8. The claim gives the local provider a timeout of 60000 ms when
  \<open>config.timeout\<close> is absent. The destructuring default has already replaced the
  absent entry by 30000 when \<open>timeout || 60000\<close> is evaluated, so the factory builds
  the local provider with 30000; the model and the number of retries default as claimed.
\<close>

theorem local_default_timeout_is_30000:
  "fst (createAIProvider \<lparr>provider = Given ''local'', apiKey = k, baseUrl = Given (c # u),
                            model = Absent, timeout = None, maxRetries = None\<rparr>) =
     Inr \<lparr>kind = Local, this_apiKey = Given (or_str k []), this_baseUrl = strip_trailing_slash (c # u),
          this_model = ''llama2'', this_timeout = 30000, this_maxRetries = 2\<rparr>"
  by (simp add: createAIProvider_def lower_local new_LocalProvider_def)

lemma callAI_logs_masked_key:
  "fst (createAIProvider cfg) = Inr p \<Longrightarrow>
   ConsoleLog (''Calling AI API (provider: '' @ render (provider cfg) @ '', masked key: ''
               @ maskApiKey (apiKey cfg) @ '')...'')
     \<in> set (snd (callAI JSON_parse env cfg prompt sp))"
  by (cases "createAIProvider cfg"; cases "call JSON_parse env p prompt sp")
     (auto simp: callAI_def split: sum.splits)

lemma createAIProvider_local:
  "\<exists>p. fst (createAIProvider \<lparr>provider = Given ''local'', apiKey = k, baseUrl = Given (c # u),
                               model = mo, timeout = t, maxRetries = r\<rparr>) = Inr p"
  by (simp add: createAIProvider_def lower_local Let_def)

text \<open>
  Claim C10. For a key that is \<open>undefined\<close>, \<open>null\<close> or the empty string,
  \<open>maskApiKey\<close> returns \<open>***\<close>, and \<open>callAI\<close> on a local configuration without
  a key logs the line with \<open>masked key: ***\<close>.
\<close>

theorem maskApiKey_missing_key:
  "maskApiKey Absent = ''***'' \<and> maskApiKey NullV = ''***'' \<and> maskApiKey (Given []) = ''***'' \<and>
   ConsoleLog ''Calling AI API (provider: local, masked key: ***)...''
     \<in> set (snd (callAI JSON_parse env
               \<lparr>provider = Given ''local'', apiKey = Absent, baseUrl = Given (c # u),
                model = mo, timeout = t, maxRetries = r\<rparr> prompt sp)) \<and>
   ConsoleLog ''Calling AI API (provider: local, masked key: ***)...''
     \<in> set (snd (callAI JSON_parse env
               \<lparr>provider = Given ''local'', apiKey = NullV, baseUrl = Given (c # u),
                model = mo, timeout = t, maxRetries = r\<rparr> prompt sp)) \<and>
   ConsoleLog ''Calling AI API (provider: local, masked key: ***)...''
     \<in> set (snd (callAI JSON_parse env
               \<lparr>provider = Given ''local'', apiKey = Given [], baseUrl = Given (c # u),
                model = mo, timeout = t, maxRetries = r\<rparr> prompt sp))"
proof -
  have line: "ConsoleLog ''Calling AI API (provider: local, masked key: ***)...''
     \<in> set (snd (callAI JSON_parse env
               \<lparr>provider = Given ''local'', apiKey = k, baseUrl = Given (c # u),
                model = mo, timeout = t, maxRetries = r\<rparr> prompt sp))"
    if "maskApiKey k = ''***''" for k
  proof -
    obtain p where "fst (createAIProvider \<lparr>provider = Given ''local'', apiKey = k, baseUrl = Given (c # u),
                               model = mo, timeout = t, maxRetries = r\<rparr>) = Inr p"
      using createAIProvider_local by blast
    from callAI_logs_masked_key [OF this, of JSON_parse env prompt sp] that
    show ?thesis by simp
  qed
  show ?thesis
    using line [of Absent] line [of NullV] line [of "Given []"] by simp
qed

subsection \<open>The provider adapters\<close>

lemma empty_content_is_empty_text:
  "OpenAI_text (JObj [(''choices'', JArr [])]) = Inr (JStr []) \<and>
   OpenAI_text (JObj [(''choices'', JArr [JObj []])]) = Inr (JStr []) \<and>
   OpenAI_text (JObj [(''choices'', JArr [JObj [(''message'', JObj [])]])]) = Inr (JStr []) \<and>
   Claude_text (JObj [(''content'', JArr [])]) = Inr (JStr []) \<and>
   Claude_text (JObj [(''content'', JArr [JObj []])]) = Inr (JStr []) \<and>
   Local_text (JObj [(''choices'', JArr [])]) = Inr (JStr [])"
  by (simp add: OpenAI_text_def Claude_text_def Local_text_def or_else_def)

text \<open>
  Claim C7. The claim says that a 2xx body without the \<open>choices\<close> (or \<open>content\<close>)
  field yields the empty string. Optional chaining starts after the index \<open>[0]\<close>, so
  on the body \<open>{}\<close> the index is applied to \<open>undefined\<close> and throws; each
  provider's \<open>call\<close> rethrows it under its own name. The local provider does not reach
  its fallback \<open>response.content\<close> either.
\<close>

theorem absent_content_field_throws:
  "OpenAI_text (JObj []) = Inl (TypeError (cannot_read ''undefined'' ''0'')) \<and>
   Claude_text (JObj []) = Inl (TypeError (cannot_read ''undefined'' ''0'')) \<and>
   Local_text (JObj []) = Inl (TypeError (cannot_read ''undefined'' ''0'')) \<and>
   Local_text (JObj [(''content'', JStr ''hi'')]) = Inl (TypeError (cannot_read ''undefined'' ''0'')) \<and>
   fst (OpenAIProvider_call (\<lambda>t. Some (JObj [])) (\<lambda>j. ResponseEnd 200 h m d) this prompt sp) =
     Inl (Error (''OpenAI API error: '' @ cannot_read ''undefined'' ''0'')) \<and>
   fst (ClaudeProvider_call (\<lambda>t. Some (JObj [])) (\<lambda>j. ResponseEnd 200 h m d) this prompt sp) =
     Inl (Error (''Claude API error: '' @ cannot_read ''undefined'' ''0'')) \<and>
   fst (LocalProvider_call (\<lambda>t. Some (JObj [])) (\<lambda>j. ResponseEnd 200 h m d) this prompt sp) =
     Inl (Error (''Local AI API error: '' @ cannot_read ''undefined'' ''0''))"
  by (simp add: OpenAI_text_def Claude_text_def Local_text_def OpenAIProvider_call_def
      ClaudeProvider_call_def LocalProvider_call_def makeRequest_ResponseEnd finish_def)

lemma makeRequest_first_effect:
  "take 1 (snd (makeRequest P env i url options body retries ms)) = [issue url options body]"
  by (cases "env i")
     (simp_all add: makeRequest_ResponseEnd makeRequest_RequestError makeRequest_TimerFired then_retry_def)

lemma makeRequest_same_request:
  "\<forall>e \<in> set (snd (makeRequest P env i url options body retries ms)). is_request e \<longrightarrow> e = issue url options body"
proof (induction P env i url options body retries ms rule: makeRequest.induct)
  case (1 P env i url options body retries ms)
  show ?case
  proof (cases "env i")
    case (ResponseEnd s h m d)
    then show ?thesis using 1
      by (auto simp: makeRequest_ResponseEnd then_retry_def split: if_splits)
  next
    case (RequestError m)
    then show ?thesis using 1
      by (auto simp: makeRequest_RequestError then_retry_def split: if_splits)
  next
    case (TimerFired a)
    then show ?thesis using 1
      by (auto simp: makeRequest_TimerFired split: if_splits option.splits)
  qed
qed

text \<open>
  Claim C9. Every request of the Claude provider's \<open>call\<close> is a POST to
  \<open>baseUrl/v1/messages\<close> with the headers \<open>Content-Type\<close>, \<open>x-api-key\<close> and
  \<open>anthropic-version: 2023-06-01\<close>, and the body \<open>model\<close>, \<open>max_tokens: 2000\<close>,
  \<open>messages\<close> with the single user turn, and the top-level \<open>system\<close> entry exactly
  when a non-empty system prompt is given. The first effect of the call is this request and
  every later request of the call equals it.
\<close>

theorem claude_request_envelope:
  "take 1 (snd (ClaudeProvider_call JSON_parse env this prompt sp)) =
     [Request (if take 5 (this_baseUrl this @ ''/v1/messages'') = ''https'' then Https else Http)
        (this_baseUrl this @ ''/v1/messages'')
        (JObj [(''method'', JStr ''POST''),
               (''headers'', JObj [(''Content-Type'', JStr ''application/json''),
                                   (''x-api-key'', to_jsval (this_apiKey this)),
                                   (''anthropic-version'', JStr ''2023-06-01'')])])
        (Some (JObj ([(''model'', JStr (this_model this)),
                      (''max_tokens'', JNum 2000),
                      (''messages'', JArr [JObj [(''role'', JStr ''user''), (''content'', JStr prompt)]])]
                     @ (case sp of Given (c # cs) \<Rightarrow> [(''system'', JStr (c # cs))] | _ \<Rightarrow> []))))] \<and>
   (\<forall>e \<in> set (snd (ClaudeProvider_call JSON_parse env this prompt sp)).
      is_request e \<longrightarrow> [e] = take 1 (snd (ClaudeProvider_call JSON_parse env this prompt sp)))"
proof -
  let ?r = "makeRequest JSON_parse env 0 (this_baseUrl this @ ''/v1/messages'')
          (JObj [(''method'', JStr ''POST''),
                 (''headers'', JObj [(''Content-Type'', JStr ''application/json''),
                                     (''x-api-key'', to_jsval (this_apiKey this)),
                                     (''anthropic-version'', JStr ''2023-06-01'')])])
          (Claude_body this prompt sp)
          (this_maxRetries this) (this_timeout this)"
  have effects: "snd (ClaudeProvider_call JSON_parse env this prompt sp) = snd ?r"
    by (simp add: ClaudeProvider_call_def finish_def split: settlement.splits sum.splits)
  have system: "(if truthy_str sp then [(''system'', to_jsval sp)] else []) =
        (case sp of Given (c # cs) \<Rightarrow> [(''system'', JStr (c # cs))] | _ \<Rightarrow> [])"
    by (cases sp) (auto split: list.splits)
  have first: "take 1 (snd ?r) = [issue (this_baseUrl this @ ''/v1/messages'')
          (JObj [(''method'', JStr ''POST''),
                 (''headers'', JObj [(''Content-Type'', JStr ''application/json''),
                                     (''x-api-key'', to_jsval (this_apiKey this)),
                                     (''anthropic-version'', JStr ''2023-06-01'')])])
          (Claude_body this prompt sp)]"
    by (rule makeRequest_first_effect)
  have same: "\<forall>e \<in> set (snd ?r). is_request e \<longrightarrow> [e] = take 1 (snd ?r)"
    using makeRequest_same_request [of JSON_parse env 0 "this_baseUrl this @ ''/v1/messages''" _
        "Claude_body this prompt sp" "this_maxRetries this" "this_timeout this"]
    unfolding first by blast
  show ?thesis
    unfolding effects using first same system
    by (simp add: issue_def Claude_body_def)
qed

theorem claude_request_envelope_witness:
  "Request Https ''https://api.anthropic.com/v1/messages''
        (JObj [(''method'', JStr ''POST''),
               (''headers'', JObj [(''Content-Type'', JStr ''application/json''),
                                   (''x-api-key'', JStr ''sk-ant-0123456789''),
                                   (''anthropic-version'', JStr ''2023-06-01'')])])
        (Some (JObj [(''model'', JStr ''claude-3-sonnet-20240229''),
                     (''max_tokens'', JNum 2000),
                     (''messages'', JArr [JObj [(''role'', JStr ''user''), (''content'', JStr ''hello'')]]),
                     (''system'', JStr ''be brief'')]))
     \<in> set (snd (ClaudeProvider_call (\<lambda>t. None) (\<lambda>j. ResponseEnd 200 None ''OK'' ''hi'')
                   (new_ClaudeProvider (Given ''sk-ant-0123456789'') None None None None)
                   ''hello'' (Given ''be brief''))) \<and>
   take 1 (snd (ClaudeProvider_call (\<lambda>t. None) (\<lambda>j. ResponseEnd 200 None ''OK'' ''hi'')
                   (new_ClaudeProvider (Given ''sk-ant-0123456789'') None None None None)
                   ''hello'' (Given ''be brief''))) =
     [Request Https ''https://api.anthropic.com/v1/messages''
        (JObj [(''method'', JStr ''POST''),
               (''headers'', JObj [(''Content-Type'', JStr ''application/json''),
                                   (''x-api-key'', JStr ''sk-ant-0123456789''),
                                   (''anthropic-version'', JStr ''2023-06-01'')])])
        (Some (JObj [(''model'', JStr ''claude-3-sonnet-20240229''),
                     (''max_tokens'', JNum 2000),
                     (''messages'', JArr [JObj [(''role'', JStr ''user''), (''content'', JStr ''hello'')]]),
                     (''system'', JStr ''be brief'')]))]"
  using claude_request_envelope
    [of "\<lambda>t. None" "\<lambda>j. ResponseEnd 200 None ''OK'' ''hi''"
        "new_ClaudeProvider (Given ''sk-ant-0123456789'') None None None None" "''hello''" "Given ''be brief''"]
  by (simp add: new_ClaudeProvider_def strip_trailing_slash_def ClaudeProvider_call_def finish_def
      makeRequest_ResponseEnd issue_def Claude_body_def Claude_text_def)

end
